theory Spec2Isabelle
  imports Main "HOL-Library.AList"
begin

section \<open>JavaScript values and strings\<close>

text \<open>
  The metadata client (class \<open>MetadataAPI\<close>) works on dynamically typed JavaScript
  values: parsed JSON responses, request payloads and the metadata records it returns.
  They are modelled by one datatype. An object is the association list of its own
  properties in insertion order; \<open>map_of\<close> reads a property and \<open>AList.update\<close> is the
  assignment \<open>obj[k] = v\<close> (overwrite in place, or append). The prototype chain is not
  part of the model: property names are data keys. Numbers are integers; the code only
  ever tests a number for being zero.

  A string is the list of its UTF-8 bytes, so that the non-ASCII glyphs of the source's
  literals are byte sequences written out with \<open>CHR 0x..\<close>.
\<close>

datatype jsval =
    JUndefined
  | JNull
  | JBool bool
  | JNum int
  | JStr string
  | JArr "jsval list"
  | JObj "(string \<times> jsval) list"

type_synonym obj = "(string \<times> jsval) list"

text \<open>Thrown values: every error the code catches is read through \<open>error.message\<close>.\<close>

datatype js_error = TypeError (message: string) | Error (message: string)

text \<open>\<open>!v\<close> is \<open>\<not> truthy v\<close>; \<open>a || b\<close> is \<open>js_or a b\<close>.\<close>

fun truthy :: "jsval \<Rightarrow> bool" where
  "truthy JUndefined = False"
| "truthy JNull = False"
| "truthy (JBool b) = b"
| "truthy (JNum n) = (n \<noteq> 0)"
| "truthy (JStr s) = (s \<noteq> [])"
| "truthy (JArr xs) = True"
| "truthy (JObj kvs) = True"

definition js_or :: "jsval \<Rightarrow> jsval \<Rightarrow> jsval" where
  "js_or a b = (if truthy a then a else b)"

text \<open>
  \<open>v.k\<close> for a fixed, non-index property name \<open>k\<close>: a TypeError on \<open>null\<close> and
  \<open>undefined\<close>, the own property of an object, \<open>undefined\<close> on every other value.
\<close>

fun get_prop :: "jsval \<Rightarrow> string \<Rightarrow> js_error + jsval" where
  "get_prop JUndefined k =
     Inl (TypeError (''Cannot read properties of undefined (reading '' @ [CHR 0x27] @ k @ [CHR 0x27] @ '')''))"
| "get_prop JNull k =
     Inl (TypeError (''Cannot read properties of null (reading '' @ [CHR 0x27] @ k @ [CHR 0x27] @ '')''))"
| "get_prop (JObj kvs) k = Inr (case map_of kvs k of Some v \<Rightarrow> v | None \<Rightarrow> JUndefined)"
| "get_prop v k = Inr JUndefined"

text \<open>
  \<open>v?.k\<close> and \<open>v?.[0]\<close>: \<open>undefined\<close> when \<open>v\<close> is \<open>null\<close> or \<open>undefined\<close>. Index 0 of
  a non-empty string is a string again, and has no property the code asks for.
\<close>

fun opt_prop :: "jsval \<Rightarrow> string \<Rightarrow> jsval" where
  "opt_prop (JObj kvs) k = (case map_of kvs k of Some v \<Rightarrow> v | None \<Rightarrow> JUndefined)"
| "opt_prop v k = JUndefined"

fun opt_index0 :: "jsval \<Rightarrow> jsval" where
  "opt_index0 (JArr xs) = (case xs of [] \<Rightarrow> JUndefined | x # _ \<Rightarrow> x)"
| "opt_index0 (JObj kvs) = (case map_of kvs ''0'' of Some v \<Rightarrow> v | None \<Rightarrow> JUndefined)"
| "opt_index0 (JStr s) = (case s of [] \<Rightarrow> JUndefined | c # _ \<Rightarrow> JStr [c])"
| "opt_index0 v = JUndefined"

subsection \<open>String primitives\<close>

fun starts_with :: "string \<Rightarrow> string \<Rightarrow> bool" where
  "starts_with s [] = True"
| "starts_with [] (p # ps) = False"
| "starts_with (c # cs) (p # ps) = (c = p \<and> starts_with cs ps)"

text \<open>\<open>s.includes(p)\<close>\<close>

fun str_includes :: "string \<Rightarrow> string \<Rightarrow> bool" where
  "str_includes [] p = (p = [])"
| "str_includes (c # cs) p = (starts_with (c # cs) p \<or> str_includes cs p)"

text \<open>
  The characters matched by \<open>\s\<close> and removed by \<open>trim()\<close>: tab, line feed, vertical tab,
  form feed, carriage return, space, and in UTF-8 the no-break space U+00A0 and the
  three-byte U+1680, U+2000..U+200A, U+2028, U+2029, U+202F, U+205F, U+3000, U+FEFF.
\<close>

definition ascii_ws :: "char list" where
  "ascii_ws = [CHR 0x09, CHR 0x0A, CHR 0x0B, CHR 0x0C, CHR 0x0D, CHR 0x20]"

definition ws3 :: "string list" where
  "ws3 =
    [[CHR 0xE1, CHR 0x9A, CHR 0x80],
     [CHR 0xE2, CHR 0x80, CHR 0x80], [CHR 0xE2, CHR 0x80, CHR 0x81], [CHR 0xE2, CHR 0x80, CHR 0x82],
     [CHR 0xE2, CHR 0x80, CHR 0x83], [CHR 0xE2, CHR 0x80, CHR 0x84], [CHR 0xE2, CHR 0x80, CHR 0x85],
     [CHR 0xE2, CHR 0x80, CHR 0x86], [CHR 0xE2, CHR 0x80, CHR 0x87], [CHR 0xE2, CHR 0x80, CHR 0x88],
     [CHR 0xE2, CHR 0x80, CHR 0x89], [CHR 0xE2, CHR 0x80, CHR 0x8A],
     [CHR 0xE2, CHR 0x80, CHR 0xA8], [CHR 0xE2, CHR 0x80, CHR 0xA9], [CHR 0xE2, CHR 0x80, CHR 0xAF],
     [CHR 0xE2, CHR 0x81, CHR 0x9F],
     [CHR 0xE3, CHR 0x80, CHR 0x80],
     [CHR 0xEF, CHR 0xBB, CHR 0xBF]]"

text \<open>The number of bytes of the whitespace character a string begins (ends) with; 0 if none.\<close>

definition ws_len :: "string \<Rightarrow> nat" where
  "ws_len s =
     (if s = [] then 0
      else if hd s \<in> set ascii_ws then 1
      else if take 2 s = [CHR 0xC2, CHR 0xA0] then 2
      else if take 3 s \<in> set ws3 then 3
      else 0)"

definition ws_len_end :: "string \<Rightarrow> nat" where
  "ws_len_end s =
     (let n = length s; last1 = drop (n - 1) s; last2 = drop (n - 2) s; last3 = drop (n - 3) s
      in if 1 \<le> n \<and> ws_len last1 = 1 then 1
         else if 2 \<le> n \<and> ws_len last2 = 2 then 2
         else if 3 \<le> n \<and> ws_len last3 = 3 then 3
         else 0)"

function trimStart :: "string \<Rightarrow> string" where
  "trimStart s = (if 0 < ws_len s then trimStart (drop (ws_len s) s) else s)"
  by pat_completeness auto
termination
  by (relation "measure length") (auto simp: ws_len_def split: if_splits)

declare trimStart.simps [simp del]

function trimEnd :: "string \<Rightarrow> string" where
  "trimEnd s = (if 0 < ws_len_end s then trimEnd (take (length s - ws_len_end s) s) else s)"
  by pat_completeness auto
termination
  by (relation "measure length") (auto simp: ws_len_end_def Let_def split: if_splits)

declare trimEnd.simps [simp del]

text \<open>\<open>s.trim()\<close>\<close>

definition trim :: "string \<Rightarrow> string" where
  "trim s = trimEnd (trimStart s)"

text \<open>\<open>s.replace(/\s+/g, ' ')\<close>: every maximal run of whitespace becomes one space.\<close>

function collapse_ws :: "string \<Rightarrow> string" where
  "collapse_ws s =
     (case s of
        [] \<Rightarrow> []
      | c # r \<Rightarrow> if 0 < ws_len s then CHR 0x20 # collapse_ws (trimStart s) else c # collapse_ws r)"
  by pat_completeness auto
termination
proof (relation "measure length")
  show "wf (measure length)" by simp
next
  fix s :: string and c r
  assume s: "s = c # r" and w: "0 < ws_len s"
  have le: "length (trimStart t) \<le> length t" for t
  proof (induction t rule: trimStart.induct)
    case (1 t)
    show ?case
    proof (cases "0 < ws_len t")
      case True
      with 1 have "length (trimStart (drop (ws_len t) t)) \<le> length (drop (ws_len t) t)" by simp
      with True show ?thesis by (subst trimStart.simps) simp
    next
      case False
      then show ?thesis by (subst trimStart.simps) simp
    qed
  qed
  have "trimStart s = trimStart (drop (ws_len s) s)"
    using w by (subst trimStart.simps) simp
  moreover have "length (drop (ws_len s) s) < length s"
    using s w by simp
  ultimately show "(trimStart s, s) \<in> measure length"
    using le [of "drop (ws_len s) s"] by simp
next
  fix s :: string and c r
  assume "s = c # r"
  then show "(r, s) \<in> measure length" by simp
qed

declare collapse_ws.simps [simp del]

text \<open>
  \<open>sanitizeString(str)\<close>:
  \<^verbatim>\<open>if (typeof str !== 'string') return ''; return str.trim().replace(/\s+/g, ' ');\<close>
\<close>

fun sanitizeString :: "jsval \<Rightarrow> string" where
  "sanitizeString (JStr s) = collapse_ws (trim s)"
| "sanitizeString v = []"

text \<open>
  \<open>content.replace(/```json\n?|\n?```/g, '')\<close>: scanning from the left, at each position
  the first alternative (the opening fence with an optional line feed) is tried before
  the second (an optional line feed and three backquotes); a match is deleted and the scan
  goes on behind it.
\<close>

function strip_fences :: "string \<Rightarrow> string" where
  "strip_fences s =
     (case s of
        [] \<Rightarrow> []
      | c # r \<Rightarrow>
          if starts_with s ''```json'' then
            (if starts_with (drop 7 s) [CHR 0x0A] then strip_fences (drop 8 s)
             else strip_fences (drop 7 s))
          else if starts_with s (CHR 0x0A # ''```'') then strip_fences (drop 4 s)
          else if starts_with s ''```'' then strip_fences (drop 3 s)
          else c # strip_fences r)"
  by pat_completeness auto
termination
  by (relation "measure length") auto

declare strip_fences.simps [simp del]

section \<open>Configuration, stored prompt rules and the platform\<close>

text \<open>
  \<open>this.config\<close>. A field the configuration object may lack is an option; an absent
  and an empty string are both falsy. The constructor sets the two URLs, an empty key,
  the timeout and \<open>retryAttempts: 3\<close>; deployment, API version, model name and the
  custom prompt arrive through \<open>setConfig\<close>.
\<close>

record config =
  openaiUrl :: "string option"
  openApiUrl :: "string option"
  llamaUrl :: "string option"
  apiKey :: "string option"
  timeout :: nat
  retryAttempts :: nat
  deployment :: "string option"
  apiVersion :: "string option"
  modelName :: "string option"
  customPrompt :: "string option"

definition constructor_config :: config where
  "constructor_config =
     \<lparr> openaiUrl = Some ''https://your-openai-api-endpoint.com/analyze'',
       openApiUrl = None,
       llamaUrl = Some ''https://your-llama-api-endpoint.com/analyze'',
       apiKey = Some [],
       timeout = 30000,
       retryAttempts = 3,
       deployment = None,
       apiVersion = None,
       modelName = None,
       customPrompt = None \<rparr>"

fun truthy_str :: "string option \<Rightarrow> bool" where
  "truthy_str None = False"
| "truthy_str (Some s) = (s \<noteq> [])"

fun str_of :: "string option \<Rightarrow> string" where
  "str_of None = []"
| "str_of (Some s) = s"

record image_info =
  width :: nat
  height :: nat
  format :: string
  sizeBytes :: nat
  filename :: string

text \<open>
  A custom prompt as the application stores it under the key \<open>customPrompts\<close>: the
  property name and the prompt text (its \<open>id\<close> is never read here).
  \<open>localStorage.getItem\<close> followed by \<open>JSON.parse\<close> either throws, finds nothing
  (\<open>null\<close> or the empty string), or yields the stored array, which the application
  only ever writes as an array of such rules.
\<close>

record prompt_rule =
  property :: string
  prompt :: string

datatype stored = Unreadable | Missing | Rules "prompt_rule list"

text \<open>
  One \<open>fetch\<close>: the promise rejects with a message (network failure, or the abort that
  the timer raises after \<open>timeout\<close> milliseconds), or a response arrives with its \<open>ok\<close>
  flag, status, status text and the outcomes of \<open>response.text()\<close> and
  \<open>response.json()\<close> (\<open>Inl\<close> the message of a rejection).
\<close>

datatype fetch_outcome =
    Rejected string
  | Response bool nat string "string + string" "string + jsval"

text \<open>
  What a call reads from its environment: the stored prompts, the clock
  (\<open>new Date().toISOString()\<close>), the outcome of the \<open>n\<close>-th fetch of the call, and the
  built-ins \<open>JSON.parse\<close> (\<open>None\<close> for a SyntaxError), \<open>JSON.stringify(v, null, 2)\<close>
  and \<open>String.prototype.toLowerCase\<close>.
\<close>

record world =
  storage :: stored
  now :: string
  transport :: "nat \<Rightarrow> fetch_outcome"
  json_parse :: "string \<Rightarrow> jsval option"
  json_stringify :: "jsval \<Rightarrow> string"
  toLowerCase :: "string \<Rightarrow> string"

text \<open>
  What a call does to its environment, in order: a request sent (URL, \<open>Authorization\<close>
  header, payload) and a backoff wait (milliseconds).
\<close>

datatype event =
    Fetch string string jsval
  | Wait nat

fun is_fetch :: "event \<Rightarrow> bool" where
  "is_fetch (Fetch u a b) = True"
| "is_fetch (Wait ms) = False"

section \<open>Prompts\<close>

text \<open>\<open>getStoredCustomPrompts()\<close>\<close>

definition getStoredCustomPrompts :: "world \<Rightarrow> prompt_rule list" where
  "getStoredCustomPrompts w =
     (case storage w of
        Rules rs \<Rightarrow> rs
      | Missing \<Rightarrow>
          [\<lparr> property = ''description'',
             prompt =
               ''Generate a detailed description for this image. Focus ''
               @ ''on the main subject, setting, activity, key visual ''
               @ ''elements, and any visible text or numeric values. ''
               @ ''Provide 3-5 sentences that would help someone understand ''
               @ ''what this image contains.'' \<rparr>]
      | Unreadable \<Rightarrow>
          [\<lparr> property = ''description'',
             prompt = ''Generate a detailed description for this image.'' \<rparr>])"

definition defaultPrompts :: "(string \<times> string) list" where
  "defaultPrompts =
     [(''title'',
       ''Generate a concise, editorial title (6-10 words) for ''
       @ ''this image. Focus on the main subject and key visual ''
       @ ''elements. Only include brand names if they are unmistakably ''
       @ ''visible. Return only the title text, no additional ''
       @ ''formatting or explanation.''),
      (''description'',
       ''Write a detailed description (3-5 sentences) of this ''
       @ ''image. Start with the main subject, then describe ''
       @ ''the setting/activity, and finally mention key visual ''
       @ ''elements. Include any visible numeric values with ''
       @ ''their units. Return only the description text, no ''
       @ ''additional formatting or explanation.''),
      (''keywords'',
       ''Generate up to 12 relevant keywords for this image. ''
       @ ''Prioritize single keywords first, use multi-word phrases ''
       @ ''only when contextually necessary. Include visible ''
       @ ''numeric values with units. Exclude: logo, brand, branding, ''
       @ ''packaging. Return only the keywords as comma-separated ''
       @ ''text, no additional formatting or explanation.'')]"

text \<open>\<open>getDefaultPromptForProperty(property)\<close>\<close>

definition getDefaultPromptForProperty :: "world \<Rightarrow> string \<Rightarrow> string" where
  "getDefaultPromptForProperty w p =
     (let generic = ''Analyze this image and provide relevant '' @ p
                    @ '' information. Return only the '' @ p
                    @ '' text, no additional formatting or explanation.''
      in case map_of defaultPrompts (toLowerCase w p) of
           Some t \<Rightarrow> if t \<noteq> [] then t else generic
         | None \<Rightarrow> generic)"

text \<open>The default prompt for asset metadata, used when no custom prompt is configured.\<close>

definition default_asset_prompt :: string where
  "default_asset_prompt =
       ''Enrich asset metadata for discoverability.'' @ [CHR 0x0A, CHR 0x0A]
       @ ''FACETS (use only when clearly visible):'' @ [CHR 0x0A]
       @ ''1. Product/type/model/brand'' @ [CHR 0x0A] @ ''2. Setting/activity/visuals''
       @ [CHR 0x0A] @ ''3. Mood/palette/style'' @ [CHR 0x0A]
       @ ''4. People: age, gender, demography'' @ [CHR 0x0A] @ ''5. Visible text or logos ''
       @ [CHR 0xE2, CHR 0x80, CHR 0x94]
       @ '' NEVER make assumptions or name brands that are not ''
       @ ''absolutely clearly identifiable in the image or overlay/on-pack '' @ ''text''
       @ [CHR 0x0A] @ ''6. All numbers that appear Explicitely on image/overlay ''
       @ ''(e.g., '' @ [CHR 0x22] @ ''500 ml'' @ [CHR 0x22] @ '', '' @ [CHR 0x22]
       @ ''v25.3'' @ [CHR 0x22] @ '', '' @ [CHR 0x22] @ ''iPhone 6'' @ [CHR 0x22] @ '')''
       @ [CHR 0x0A, CHR 0x0A] @ ''OUTPUT:'' @ [CHR 0x0A, CHR 0xE2, CHR 0x80, CHR 0xA2]
       @ '' TITLE (6'' @ [CHR 0xE2, CHR 0x80, CHR 0x93] @ ''10 words) ''
       @ [CHR 0xE2, CHR 0x80, CHR 0x93]
       @ '' concise, editorial; name brand only if unmistakable.''
       @ [CHR 0x0A, CHR 0xE2, CHR 0x80, CHR 0xA2] @ '' DESCRIPTION (3''
       @ [CHR 0xE2, CHR 0x80, CHR 0x93] @ ''5 sentences) '' @ [CHR 0xE2, CHR 0x80, CHR 0x93]
       @ '' main subject '' @ [CHR 0xE2, CHR 0x86, CHR 0x92] @ '' setting/activity ''
       @ [CHR 0xE2, CHR 0x86, CHR 0x92]
       @ '' key visuals; include visible numeric concepts.''
       @ [CHR 0x0A, CHR 0xE2, CHR 0x80, CHR 0xA2] @ '' KEYWORDS (up to 12) ''
       @ [CHR 0xE2, CHR 0x80, CHR 0x93]
       @ '' prioratize single keywords first; use multi-word ''
       @ ''only when required contextually (e.g., '' @ [CHR 0x22] @ ''soccer player''
       @ [CHR 0x22] @ '').'' @ [CHR 0x0A, CHR 0x0A] @ ''RULES:''
       @ [CHR 0x0A, CHR 0xE2, CHR 0x80, CHR 0xA2]
       @ '' All numeric values MUST be tagged with their complete ''
       @ ''unit or metric as a single keyword Only if Clearly ''
       @ ''seen in the image/text ('' @ [CHR 0x22] @ ''15 oz'' @ [CHR 0x22] @ '', ''
       @ [CHR 0x22] @ ''120 ml'' @ [CHR 0x22] @ '').''
       @ [CHR 0x0A, CHR 0xE2, CHR 0x80, CHR 0xA2]
       @ '' The following keywords Must be Removed from the keywords '' @ ''list: ''
       @ [CHR 0x22] @ ''logo'' @ [CHR 0x22] @ '', '' @ [CHR 0x22] @ ''brand'' @ [CHR 0x22]
       @ '', '' @ [CHR 0x22] @ ''branding'' @ [CHR 0x22] @ '', '' @ [CHR 0x22]
       @ ''packaging'' @ [CHR 0x22] @ '' .'' @ [CHR 0x0A, CHR 0x0A]
       @ ''Return in pretty-print JSON format. Do not add Markdown ''
       @ ''or code block formatting. Use exactly these keys: '' @ [CHR 0x27] @ ''Title''
       @ [CHR 0x27] @ '' (string), '' @ [CHR 0x27] @ ''Description'' @ [CHR 0x27]
       @ '' (string), and '' @ [CHR 0x27] @ ''Keywords'' @ [CHR 0x27]
       @ '' (string containing a comma-separated list of tags''"

text \<open>
  The prompt selection at the head of \<open>buildAzureOpenAIPayload\<close>:
  \<^verbatim>\<open>
  if (customPrompt) prompt = customPrompt;
  else if (property) {
      const propertyPrompt = storedPrompts.find(p => p.property === property);
      prompt = propertyPrompt ? propertyPrompt.prompt : this.getDefaultPromptForProperty(property);
  } else prompt = this.config.customPrompt || `Enrich asset metadata ...`;
  \<close>
\<close>

definition resolvePrompt :: "world \<Rightarrow> config \<Rightarrow> string option \<Rightarrow> string option \<Rightarrow> string" where
  "resolvePrompt w cfg prop override =
     (if truthy_str override then str_of override
      else if truthy_str prop then
        (case find (\<lambda>p. property p = str_of prop) (getStoredCustomPrompts w) of
           Some propertyPrompt \<Rightarrow> prompt propertyPrompt
         | None \<Rightarrow> getDefaultPromptForProperty w (str_of prop))
      else if truthy_str (customPrompt cfg) then str_of (customPrompt cfg)
      else default_asset_prompt)"

text \<open>\<open>buildAzureOpenAIPayload(imageUrl, imageInfo, property, customPrompt)\<close>\<close>

definition buildAzureOpenAIPayload ::
  "world \<Rightarrow> config \<Rightarrow> string \<Rightarrow> image_info \<Rightarrow> string option \<Rightarrow> string option \<Rightarrow> obj" where
  "buildAzureOpenAIPayload w cfg imageUrl imageInfo prop override =
     [(''messages'',
        JArr [JObj
          [(''role'', JStr ''user''),
           (''content'',
              JArr [JObj [(''type'', JStr ''text''),
                          (''text'', JStr (resolvePrompt w cfg prop override))],
                    JObj [(''type'', JStr ''image_url''),
                          (''image_url'', JObj [(''url'', JStr imageUrl)])]])]]),
      (''max_tokens'', JNum 4096),
      (''temperature'', JNum 1),
      (''top_p'', JNum 1),
      (''model'',
        JStr (if truthy_str (modelName cfg) then str_of (modelName cfg)
              else ''gpt-4-vision-preview''))]"

section \<open>Metadata records\<close>

text \<open>\<open>getDefaultMetadata()\<close>\<close>

definition getDefaultMetadata :: "world \<Rightarrow> obj" where
  "getDefaultMetadata w =
     [(''title'', JStr ''Sample Title''),
      (''description'', JStr ''This is a sample description generated for testing purposes.''),
      (''tags'', JStr ''sample, test, placeholder, demo''),
      (''confidence'', JNull),
      (''processing_time'', JNull),
      (''provider'', JStr ''default''),
      (''generated_at'', JStr (now w))]"

text \<open>
  The block the source repeats in \<open>getErrorMetadata\<close> and in both fallbacks of the parser:
  \<^verbatim>\<open>
  if (customPrompts.length > 0)
      customPrompts.forEach(promptConfig => { result[promptConfig.property] = v; });
  else result.description = v;
  \<close>
\<close>

definition populate :: "prompt_rule list \<Rightarrow> jsval \<Rightarrow> obj \<Rightarrow> obj" where
  "populate customPrompts v result =
     (if 0 < length customPrompts
      then fold (\<lambda>promptConfig. AList.update (property promptConfig) v) customPrompts result
      else AList.update ''description'' v result)"

definition error_marker :: string where
  "error_marker = [CHR 0xE2, CHR 0x9D, CHR 0x8C] @ '' Error: ''"

definition raw_marker :: string where
  "raw_marker = [CHR 0xF0, CHR 0x9F, CHR 0x93, CHR 0x9D] @ '' Raw Response: ''"

text \<open>\<open>getErrorMetadata(errorMessage)\<close>\<close>

definition getErrorMetadata :: "world \<Rightarrow> string \<Rightarrow> obj" where
  "getErrorMetadata w errorMessage =
     populate (getStoredCustomPrompts w) (JStr (error_marker @ errorMessage))
       [(''error'', JStr errorMessage),
        (''provider'', JStr ''error''),
        (''generated_at'', JStr (now w))]"

section \<open>Response parser\<close>

text \<open>\<open>response.choices?.[0]?.message?.content\<close>\<close>

definition extract_content :: "jsval \<Rightarrow> js_error + jsval" where
  "extract_content response =
     (case get_prop response ''choices'' of
        Inl e \<Rightarrow> Inl e
      | Inr choices \<Rightarrow> Inr (opt_prop (opt_prop (opt_index0 choices) ''message'') ''content''))"

text \<open>
  The record built from parsed JSON. Reading \<open>metadata.Title\<close> throws when the parsed
  value is \<open>null\<close>; once it has succeeded the other reads cannot throw.
\<close>

definition structured_record :: "world \<Rightarrow> jsval \<Rightarrow> js_error + obj" where
  "structured_record w metadata =
     (case get_prop metadata ''Title'' of
        Inl e \<Rightarrow> Inl e
      | Inr vTitle \<Rightarrow>
          Inr [(''title'',
                  JStr (sanitizeString (js_or (js_or vTitle (opt_prop metadata ''title'')) (JStr [])))),
               (''description'',
                  JStr (sanitizeString
                    (js_or (js_or (opt_prop metadata ''Description'') (opt_prop metadata ''description''))
                       (JStr [])))),
               (''tags'',
                  JStr (sanitizeString
                    (js_or (js_or (js_or (opt_prop metadata ''Keywords'') (opt_prop metadata ''keywords''))
                              (opt_prop metadata ''tags''))
                       (JStr [])))),
               (''confidence'', JNull),
               (''processing_time'', JNull),
               (''provider'', JStr ''openai''),
               (''generated_at'', JStr (now w))])"

text \<open>The inner \<open>catch (parseError)\<close>: the raw content goes into every field.\<close>

definition plain_text_record :: "world \<Rightarrow> string \<Rightarrow> obj" where
  "plain_text_record w content =
     populate (getStoredCustomPrompts w) (JStr (sanitizeString (JStr content)))
       [(''confidence'', JNull),
        (''processing_time'', JNull),
        (''provider'', JStr ''openai''),
        (''generated_at'', JStr (now w))]"

text \<open>
  \<open>parseAzureOpenAIResponse(response)\<close>. The outer \<open>catch\<close> turns a throw into an error
  record. A truthy content that is not a string has no \<open>replace\<close>; the inner \<open>catch\<close>
  takes that TypeError and throws the next one itself on \<open>content.substring\<close>, which
  the outer \<open>catch\<close> reports.
\<close>

definition parseAzureOpenAIResponse :: "world \<Rightarrow> jsval \<Rightarrow> obj" where
  "parseAzureOpenAIResponse w response =
     (case extract_content response of
        Inl e \<Rightarrow> getErrorMetadata w (''Failed to parse Azure OpenAI response: '' @ message e)
      | Inr content \<Rightarrow>
          if \<not> truthy content then
            populate (getStoredCustomPrompts w) (JStr (raw_marker @ json_stringify w response))
              [(''confidence'', JNull),
               (''processing_time'', JNull),
               (''provider'', JStr ''openai''),
               (''generated_at'', JStr (now w))]
          else
            (case content of
               JStr s \<Rightarrow>
                 (case json_parse w (trim (strip_fences s)) of
                    None \<Rightarrow> plain_text_record w s
                  | Some metadata \<Rightarrow>
                      (case structured_record w metadata of
                         Inl e \<Rightarrow> plain_text_record w s
                       | Inr r \<Rightarrow> r))
             | _ \<Rightarrow>
                 getErrorMetadata w
                   (''Failed to parse Azure OpenAI response: content.substring is not a function'')))"

section \<open>Transport client\<close>

text \<open>Decimal digits of a number, as a template literal prints the HTTP status.\<close>

function show_nat :: "nat \<Rightarrow> string" where
  "show_nat n =
     (if n < 10 then [char_of (48 + n)]
      else show_nat (n div 10) @ [char_of (48 + n mod 10)])"
  by pat_completeness auto
termination
  by (relation "measure id") auto

declare show_nat.simps [simp del]

text \<open>
  The endpoint check of \<open>callAPI\<close>:
  \<^verbatim>\<open>
  const baseUrl = this.config.openaiUrl || this.config.openApiUrl;
  if (!baseUrl || !deployment || !apiVersion || baseUrl.includes('your-'))
  \<close>
\<close>

definition baseUrl :: "config \<Rightarrow> string option" where
  "baseUrl cfg = (if truthy_str (openaiUrl cfg) then openaiUrl cfg else openApiUrl cfg)"

definition config_incomplete :: "config \<Rightarrow> bool" where
  "config_incomplete cfg =
     (\<not> truthy_str (baseUrl cfg) \<or> \<not> truthy_str (deployment cfg) \<or> \<not> truthy_str (apiVersion cfg)
      \<or> str_includes (str_of (baseUrl cfg)) ''your-'')"

definition request_url :: "config \<Rightarrow> string" where
  "request_url cfg =
     str_of (baseUrl cfg) @ ''/openai/deployments/'' @ str_of (deployment cfg)
     @ ''/chat/completions?api-version='' @ str_of (apiVersion cfg)"

definition authorization_header :: "config \<Rightarrow> string" where
  "authorization_header cfg =
     (if truthy_str (apiKey cfg) then ''Bearer '' @ str_of (apiKey cfg) else [])"

text \<open>
  The body of the \<open>try\<close> once the fetch has settled: \<open>Inl\<close> is the message of the error
  the \<open>catch\<close> receives, \<open>Inr\<close> the record the attempt returns.
\<close>

definition attempt_result :: "world \<Rightarrow> fetch_outcome \<Rightarrow> string + obj" where
  "attempt_result w outcome =
     (case outcome of
        Rejected m \<Rightarrow> Inl m
      | Response ok status statusText body_text body_json \<Rightarrow>
          if \<not> ok then
            (case body_text of
               Inl m \<Rightarrow> Inl m
             | Inr errorText \<Rightarrow>
                 Inl (''HTTP '' @ show_nat status @ '': '' @ statusText @ '' - '' @ errorText))
          else
            (case body_json of
               Inl m \<Rightarrow> Inl m
             | Inr result \<Rightarrow> Inr (parseAzureOpenAIResponse w result)))"

text \<open>
  The retry loop of \<open>callAPI\<close> from attempt number \<open>attempt\<close> on, and the code behind it.
  With no attempt made \<open>lastError\<close> is \<open>undefined\<close> and reading its message throws.
  Console output and \<open>logCurlCommand\<close> have no part in the result and are left out.
\<close>

function callAPI_loop ::
  "world \<Rightarrow> config \<Rightarrow> string \<Rightarrow> obj \<Rightarrow> nat \<Rightarrow> string option \<Rightarrow> event list \<times> (js_error + obj)" where
  "callAPI_loop w cfg url payload attempt lastError =
     (if attempt \<le> retryAttempts cfg then
        (case attempt_result w (transport w attempt) of
           Inr r \<Rightarrow> ([Fetch url (authorization_header cfg) (JObj payload)], Inr r)
         | Inl m \<Rightarrow>
             (let backoff = (if attempt < retryAttempts cfg
                             then [Wait (1000 * 2 ^ (attempt - 1))] else []);
                  rest = callAPI_loop w cfg url payload (attempt + 1) (Some m)
              in (Fetch url (authorization_header cfg) (JObj payload) # backoff @ fst rest,
                  snd rest)))
      else
        (case lastError of
           None \<Rightarrow>
             ([], Inl (TypeError (''Cannot read properties of undefined (reading '' @ [CHR 0x27] @ ''message'' @ [CHR 0x27]
                                  @ '')'')))
         | Some m \<Rightarrow> ([], Inr (getErrorMetadata w (''Azure OpenAI API failed: '' @ m)))))"
  by pat_completeness auto
termination
  by (relation "measure (\<lambda>(w, cfg, url, payload, attempt, lastError). Suc (retryAttempts cfg) - attempt)")
    auto

declare callAPI_loop.simps [simp del]

text \<open>\<open>callAPI(provider, imageUrl, imageInfo, property = null, customPrompt = null)\<close>\<close>

definition callAPI ::
  "world \<Rightarrow> config \<Rightarrow> string \<Rightarrow> string \<Rightarrow> image_info \<Rightarrow> string option \<Rightarrow> string option
     \<Rightarrow> event list \<times> (js_error + obj)" where
  "callAPI w cfg provider imageUrl imageInfo prop override =
     (if provider \<noteq> ''openai'' then ([], Inr (getDefaultMetadata w))
      else if config_incomplete cfg then ([], Inr (getDefaultMetadata w))
      else callAPI_loop w cfg (request_url cfg)
             (buildAzureOpenAIPayload w cfg imageUrl imageInfo prop override) 1 None)"

section \<open>Facade\<close>

definition generateOpenAIMetadata ::
  "world \<Rightarrow> config \<Rightarrow> string \<Rightarrow> image_info \<Rightarrow> string option \<Rightarrow> event list \<times> (js_error + obj)" where
  "generateOpenAIMetadata w cfg imageUrl imageInfo prop =
     callAPI w cfg ''openai'' imageUrl imageInfo prop None"

definition generateCustomPropertyMetadata ::
  "world \<Rightarrow> config \<Rightarrow> string \<Rightarrow> image_info \<Rightarrow> string \<Rightarrow> string \<Rightarrow> event list \<times> (js_error + obj)" where
  "generateCustomPropertyMetadata w cfg imageUrl imageInfo prop override =
     callAPI w cfg ''openai'' imageUrl imageInfo (Some prop) (Some override)"

definition generateLlamaMetadata ::
  "world \<Rightarrow> config \<Rightarrow> string \<Rightarrow> image_info \<Rightarrow> event list \<times> (js_error + obj)" where
  "generateLlamaMetadata w cfg imageUrl imageInfo =
     callAPI w cfg ''llama'' imageUrl imageInfo None None"

text \<open>
  What \<open>generateBothMetadata\<close> makes of the two settled promises (\<open>Inr\<close> fulfilled,
  \<open>Inl\<close> rejected):
  \<^verbatim>\<open>
  openai: openaiResult.status === 'fulfilled' ? openaiResult.value
                                              : this.getErrorMetadata('OpenAI API failed'),
  llama:  llamaResult.status === 'fulfilled' ? llamaResult.value
                                             : this.getErrorMetadata('Llama API failed')
  \<close>
\<close>

definition settled_value :: "world \<Rightarrow> string \<Rightarrow> js_error + obj \<Rightarrow> obj" where
  "settled_value w failure settled =
     (case settled of Inr v \<Rightarrow> v | Inl reason \<Rightarrow> getErrorMetadata w failure)"

definition both_results :: "world \<Rightarrow> js_error + obj \<Rightarrow> js_error + obj \<Rightarrow> obj" where
  "both_results w openaiResult llamaResult =
     [(''openai'', JObj (settled_value w ''OpenAI API failed'' openaiResult)),
      (''llama'', JObj (settled_value w ''Llama API failed'' llamaResult))]"

text \<open>
  \<open>generateBothMetadata(imageUrl, imageInfo)\<close>. \<open>Promise.allSettled\<close> waits for both
  calls and never rejects, and \<open>getErrorMetadata\<close> does not throw, so the \<open>catch\<close> of
  this function has nothing to catch. The events of the two calls are listed one call
  after the other.
\<close>

definition generateBothMetadata ::
  "world \<Rightarrow> config \<Rightarrow> string \<Rightarrow> image_info \<Rightarrow> event list \<times> obj" where
  "generateBothMetadata w cfg imageUrl imageInfo =
     (let openaiCall = generateOpenAIMetadata w cfg imageUrl imageInfo None;
          llamaCall = generateLlamaMetadata w cfg imageUrl imageInfo
      in (fst openaiCall @ fst llamaCall, both_results w (snd openaiCall) (snd llamaCall)))"

definition testImageInfo :: image_info where
  "testImageInfo =
     \<lparr> width = 800, height = 600, format = ''jpg'', sizeBytes = 150000, filename = ''test.jpg'' \<rparr>"

text \<open>
  \<open>testConfiguration()\<close>: the \<open>try\<close> returns what \<open>generateBothMetadata\<close> resolves to, the
  \<open>catch\<close> returns \<open>null\<close>.
\<close>

definition testConfiguration_return :: "js_error + obj \<Rightarrow> jsval" where
  "testConfiguration_return awaited =
     (case awaited of Inr result \<Rightarrow> JObj result | Inl error \<Rightarrow> JNull)"

definition testConfiguration :: "world \<Rightarrow> config \<Rightarrow> event list \<times> jsval" where
  "testConfiguration w cfg =
     (let both = generateBothMetadata w cfg ''data:image/jpeg;base64,test'' testImageInfo
      in (fst both, testConfiguration_return (Inr (snd both))))"

section \<open>A concrete platform\<close>

text \<open>
  The results below hold for every \<open>world\<close>. To run the model on concrete inputs the
  built-ins are given definitions of their own: a JSON reader and writer for the values
  of \<open>jsval\<close> and ASCII lower-casing. The reader follows the JSON grammar; a number with
  a fraction or an exponent and a \<open>\u\<close> escape of a surrogate have no value in \<open>jsval\<close>
  and are not read.
\<close>

definition json_ws :: "char \<Rightarrow> bool" where
  "json_ws c = (c \<in> set [CHR 0x20, CHR 0x09, CHR 0x0A, CHR 0x0D])"

definition is_digit :: "char \<Rightarrow> bool" where
  "is_digit c = (48 \<le> (of_char c :: nat) \<and> (of_char c :: nat) \<le> 57)"

fun digits_value :: "nat \<Rightarrow> string \<Rightarrow> nat" where
  "digits_value acc [] = acc"
| "digits_value acc (c # cs) = digits_value (10 * acc + ((of_char c :: nat) - 48)) cs"

definition parse_number :: "string \<Rightarrow> (jsval \<times> string) option" where
  "parse_number s =
     (let negative = starts_with s ''-'';
          s1 = (if negative then drop 1 s else s);
          ds = takeWhile is_digit s1;
          r = dropWhile is_digit s1
      in if ds = [] then None
         else if 1 < length ds \<and> hd ds = CHR ''0'' then None
         else if starts_with r ''.'' \<or> starts_with r ''e'' \<or> starts_with r ''E'' then None
         else Some (JNum (if negative then - int (digits_value 0 ds) else int (digits_value 0 ds)), r))"

definition hex_value :: "char \<Rightarrow> nat option" where
  "hex_value c =
     (let n = (of_char c :: nat)
      in if 48 \<le> n \<and> n \<le> 57 then Some (n - 48)
         else if 65 \<le> n \<and> n \<le> 70 then Some (n - 55)
         else if 97 \<le> n \<and> n \<le> 102 then Some (n - 87)
         else None)"

definition hex4 :: "char \<Rightarrow> char \<Rightarrow> char \<Rightarrow> char \<Rightarrow> nat option" where
  "hex4 a b c d =
     (case (hex_value a, hex_value b, hex_value c, hex_value d) of
        (Some x, Some y, Some z, Some u) \<Rightarrow> Some (4096 * x + 256 * y + 16 * z + u)
      | _ \<Rightarrow> None)"

definition utf8 :: "nat \<Rightarrow> string option" where
  "utf8 cp =
     (if cp < 128 then Some [char_of cp]
      else if cp < 2048 then Some [char_of (192 + cp div 64), char_of (128 + cp mod 64)]
      else if 55296 \<le> cp \<and> cp < 57344 then None
      else Some [char_of (224 + cp div 4096), char_of (128 + (cp div 64) mod 64),
                 char_of (128 + cp mod 64)])"

definition unescape :: "char \<Rightarrow> char option" where
  "unescape e =
     (if e = CHR 0x22 \<or> e = CHR 0x5C \<or> e = CHR ''/'' then Some e
      else if e = CHR ''b'' then Some (CHR 0x08)
      else if e = CHR ''f'' then Some (CHR 0x0C)
      else if e = CHR ''n'' then Some (CHR 0x0A)
      else if e = CHR ''r'' then Some (CHR 0x0D)
      else if e = CHR ''t'' then Some (CHR 0x09)
      else None)"

text \<open>The rest of a string literal behind its opening quote.\<close>

fun parse_string_body :: "string \<Rightarrow> (string \<times> string) option" where
  "parse_string_body [] = None"
| "parse_string_body (c # r) =
     (if c = CHR 0x22 then Some ([], r)
      else if c = CHR 0x5C then
        (case r of
           [] \<Rightarrow> None
         | e # r1 \<Rightarrow>
             if e = CHR ''u'' then
               (case r1 of
                  h1 # h2 # h3 # h4 # r2 \<Rightarrow>
                    (case hex4 h1 h2 h3 h4 of
                       None \<Rightarrow> None
                     | Some cp \<Rightarrow>
                         (case utf8 cp of
                            None \<Rightarrow> None
                          | Some bs \<Rightarrow>
                              map_option (\<lambda>(t, rest). (bs @ t, rest)) (parse_string_body r2)))
                | _ \<Rightarrow> None)
             else
               (case unescape e of
                  None \<Rightarrow> None
                | Some ch \<Rightarrow> map_option (\<lambda>(t, rest). (ch # t, rest)) (parse_string_body r1)))
      else if (of_char c :: nat) < 32 then None
      else map_option (\<lambda>(t, rest). (c # t, rest)) (parse_string_body r))"

text \<open>
  Recursive descent over values, array elements and object members. The first argument
  bounds the number of nested calls; every call consumes input, so the length of the
  input is enough.
\<close>

fun parse_value :: "nat \<Rightarrow> string \<Rightarrow> (jsval \<times> string) option"
  and parse_elements :: "nat \<Rightarrow> jsval list \<Rightarrow> string \<Rightarrow> (jsval \<times> string) option"
  and parse_members :: "nat \<Rightarrow> obj \<Rightarrow> string \<Rightarrow> (jsval \<times> string) option" where
  "parse_value 0 s = None"
| "parse_value (Suc n) s =
     (case dropWhile json_ws s of
        [] \<Rightarrow> None
      | c # r \<Rightarrow>
          if c = CHR ''{'' then
            (case dropWhile json_ws r of
               [] \<Rightarrow> None
             | d # r1 \<Rightarrow> if d = CHR ''}'' then Some (JObj [], r1) else parse_members n [] (d # r1))
          else if c = CHR ''['' then
            (case dropWhile json_ws r of
               [] \<Rightarrow> None
             | d # r1 \<Rightarrow> if d = CHR '']'' then Some (JArr [], r1) else parse_elements n [] (d # r1))
          else if c = CHR 0x22 then map_option (\<lambda>(t, rest). (JStr t, rest)) (parse_string_body r)
          else if starts_with (c # r) ''true'' then Some (JBool True, drop 4 (c # r))
          else if starts_with (c # r) ''false'' then Some (JBool False, drop 5 (c # r))
          else if starts_with (c # r) ''null'' then Some (JNull, drop 4 (c # r))
          else parse_number (c # r))"
| "parse_elements 0 acc s = None"
| "parse_elements (Suc n) acc s =
     (case parse_value n s of
        None \<Rightarrow> None
      | Some (v, r) \<Rightarrow>
          (case dropWhile json_ws r of
             [] \<Rightarrow> None
           | c # r1 \<Rightarrow>
               if c = CHR '','' then parse_elements n (acc @ [v]) r1
               else if c = CHR '']'' then Some (JArr (acc @ [v]), r1)
               else None))"
| "parse_members 0 acc s = None"
| "parse_members (Suc n) acc s =
     (case dropWhile json_ws s of
        [] \<Rightarrow> None
      | q # r \<Rightarrow>
          if q \<noteq> CHR 0x22 then None
          else
            (case parse_string_body r of
               None \<Rightarrow> None
             | Some (k, r1) \<Rightarrow>
                 (case dropWhile json_ws r1 of
                    [] \<Rightarrow> None
                  | c # r2 \<Rightarrow>
                      if c \<noteq> CHR '':'' then None
                      else
                        (case parse_value n r2 of
                           None \<Rightarrow> None
                         | Some (v, r3) \<Rightarrow>
                             (case dropWhile json_ws r3 of
                                [] \<Rightarrow> None
                              | d # r4 \<Rightarrow>
                                  if d = CHR '','' then parse_members n (AList.update k v acc) r4
                                  else if d = CHR ''}'' then Some (JObj (AList.update k v acc), r4)
                                  else None)))))"

definition JSON_parse :: "string \<Rightarrow> jsval option" where
  "JSON_parse s =
     (case parse_value (Suc (length s)) s of
        None \<Rightarrow> None
      | Some (v, r) \<Rightarrow> if dropWhile json_ws r = [] then Some v else None)"

text \<open>The writer: \<open>JSON.stringify(v, null, 2)\<close>.\<close>

definition hex_digit :: "nat \<Rightarrow> char" where
  "hex_digit n = (if n < 10 then char_of (48 + n) else char_of (87 + n))"

definition escape_char :: "char \<Rightarrow> string" where
  "escape_char c =
     (if c = CHR 0x22 then [CHR 0x5C, CHR 0x22]
      else if c = CHR 0x5C then [CHR 0x5C, CHR 0x5C]
      else if c = CHR 0x08 then [CHR 0x5C, CHR ''b'']
      else if c = CHR 0x0C then [CHR 0x5C, CHR ''f'']
      else if c = CHR 0x0A then [CHR 0x5C, CHR ''n'']
      else if c = CHR 0x0D then [CHR 0x5C, CHR ''r'']
      else if c = CHR 0x09 then [CHR 0x5C, CHR ''t'']
      else if (of_char c :: nat) < 32 then
        [CHR 0x5C, CHR ''u'', CHR ''0'', CHR ''0'', hex_digit ((of_char c :: nat) div 16),
         hex_digit ((of_char c :: nat) mod 16)]
      else [c])"

definition quote :: "string \<Rightarrow> string" where
  "quote s = CHR 0x22 # concat (map escape_char s) @ [CHR 0x22]"

fun join :: "string \<Rightarrow> string list \<Rightarrow> string" where
  "join sep [] = []"
| "join sep [x] = x"
| "join sep (x # y # zs) = x @ sep @ join sep (y # zs)"

definition show_int :: "int \<Rightarrow> string" where
  "show_int i = (if i < 0 then CHR ''-'' # show_nat (nat (- i)) else show_nat (nat i))"

text \<open>
  A value at indentation \<open>ind\<close>. An \<open>undefined\<close> array element is written \<open>null\<close>, an
  \<open>undefined\<close> property is left out.
\<close>

fun stringify_at :: "string \<Rightarrow> jsval \<Rightarrow> string" where
  "stringify_at ind JUndefined = ''null''"
| "stringify_at ind JNull = ''null''"
| "stringify_at ind (JBool b) = (if b then ''true'' else ''false'')"
| "stringify_at ind (JNum n) = show_int n"
| "stringify_at ind (JStr s) = quote s"
| "stringify_at ind (JArr xs) =
     (if xs = [] then ''[]''
      else ''['' @ [CHR 0x0A]
           @ join ('','' @ [CHR 0x0A]) (map (\<lambda>x. ind @ ''  '' @ stringify_at (ind @ ''  '') x) xs)
           @ [CHR 0x0A] @ ind @ '']'')"
| "stringify_at ind (JObj kvs) =
     (if filter (\<lambda>kv. snd kv \<noteq> JUndefined) kvs = [] then ''{}''
      else ''{'' @ [CHR 0x0A]
           @ join ('','' @ [CHR 0x0A])
               (map (\<lambda>kv. ind @ ''  '' @ quote (fst kv) @ '': '' @ stringify_at (ind @ ''  '') (snd kv))
                  (filter (\<lambda>kv. snd kv \<noteq> JUndefined) kvs))
           @ [CHR 0x0A] @ ind @ ''}'')"

definition JSON_stringify :: "jsval \<Rightarrow> string" where
  "JSON_stringify v = (if v = JUndefined then ''undefined'' else stringify_at [] v)"

definition ascii_toLowerCase :: "string \<Rightarrow> string" where
  "ascii_toLowerCase s =
     map (\<lambda>c. if 65 \<le> (of_char c :: nat) \<and> (of_char c :: nat) \<le> 90
              then char_of ((of_char c :: nat) + 32) else c) s"

section \<open>Notions used to state the properties\<close>

text \<open>The backoff waits of a trace, in order.\<close>

fun waits :: "event list \<Rightarrow> nat list" where
  "waits [] = []"
| "waits (Fetch u a b # es) = waits es"
| "waits (Wait ms # es) = ms # waits es"

text \<open>
  Attempt \<open>i\<close> of a call fails when its \<open>try\<close> body throws: the fetch is rejected or
  aborted, the status is not ok, or the body cannot be read. \<open>failure_message\<close> is the
  message of that error.
\<close>

definition attempt_fails :: "world \<Rightarrow> nat \<Rightarrow> bool" where
  "attempt_fails w i = isl (attempt_result w (transport w i))"

definition failure_message :: "world \<Rightarrow> nat \<Rightarrow> string" where
  "failure_message w i = (case attempt_result w (transport w i) of Inl m \<Rightarrow> m | Inr r \<Rightarrow> [])"

text \<open>What a failed attempt \<open>i\<close> leaves in the trace when the retry schedule is kept.\<close>

definition attempt_events :: "config \<Rightarrow> string \<Rightarrow> obj \<Rightarrow> nat \<Rightarrow> event list" where
  "attempt_events cfg url payload i =
     Fetch url (authorization_header cfg) (JObj payload)
     # (if i < retryAttempts cfg then [Wait (1000 * 2 ^ (i - 1))] else [])"





fun nullish :: "jsval \<Rightarrow> bool" where
  "nullish JUndefined = True"
| "nullish JNull = True"
| "nullish v = False"



section \<open>Scenarios\<close>

text \<open>A browser on its first visit, with no network.\<close>

definition offline :: "nat \<Rightarrow> fetch_outcome" where
  "offline n = Rejected ''Failed to fetch''"

definition first_visit :: world where
  "first_visit =
     \<lparr> storage = Missing, now = ''2025-01-01T00:00:00.000Z'', transport = offline,
       json_parse = JSON_parse, json_stringify = JSON_stringify,
       toLowerCase = ascii_toLowerCase \<rparr>"

text \<open>A complete endpoint configuration.\<close>

definition azure_config :: config where
  "azure_config =
     \<lparr> openaiUrl = Some ''https://contoso.openai.azure.com'',
       openApiUrl = None,
       llamaUrl = None,
       apiKey = Some ''secret'',
       timeout = 30000,
       retryAttempts = 3,
       deployment = Some ''gpt-4o'',
       apiVersion = Some ''2024-02-15-preview'',
       modelName = Some ''gpt-4-vision-preview'',
       customPrompt = Some ''Describe the image.'' \<rparr>"









text \<open>A real base URL with the placeholder deployment name of the default configuration.\<close>

definition placeholder_deployment_config :: config where
  "placeholder_deployment_config = azure_config \<lparr> deployment := Some ''your-deployment-name'' \<rparr>"



text \<open>A complete configuration that allows no attempt.\<close>

definition no_attempts_config :: config where
  "no_attempts_config = azure_config \<lparr> retryAttempts := 0 \<rparr>"

section \<open>Auxiliary facts\<close>

lemma map_of_fold_update:
  "map_of (fold (\<lambda>pc. AList.update (property pc) v) rules r) k =
     (if k \<in> property ` set rules then Some v else map_of r k)"
  by (induction rules arbitrary: r) (auto simp: update_conv')

lemma map_of_populate:
  "map_of (populate rules v r) k =
     (if rules = [] then (if k = ''description'' then Some v else map_of r k)
      else if k \<in> property ` set rules then Some v else map_of r k)"
  by (simp add: populate_def map_of_fold_update update_conv')

lemma loop_past_end:
  "retryAttempts cfg < a \<Longrightarrow>
   callAPI_loop w cfg url payload a (Some m) =
     ([], Inr (getErrorMetadata w (''Azure OpenAI API failed: '' @ m)))"
  by (subst callAPI_loop.simps) simp

lemma loop_step_fail:
  assumes "a \<le> retryAttempts cfg" and "attempt_result w (transport w a) = Inl m"
  shows "callAPI_loop w cfg url payload a lastError =
     (attempt_events cfg url payload a @ fst (callAPI_loop w cfg url payload (a + 1) (Some m)),
      snd (callAPI_loop w cfg url payload (a + 1) (Some m)))"
  using assms by (subst callAPI_loop.simps) (simp add: attempt_events_def Let_def)


lemma loop_all_fail:
  assumes "\<forall>i. a \<le> i \<and> i \<le> retryAttempts cfg \<longrightarrow> attempt_fails w i"
    and "a \<le> retryAttempts cfg"
  shows "callAPI_loop w cfg url payload a lastError =
     (concat (map (attempt_events cfg url payload) [a..<Suc (retryAttempts cfg)]),
      Inr (getErrorMetadata w
        (''Azure OpenAI API failed: '' @ failure_message w (retryAttempts cfg))))"
  using assms
proof (induction "retryAttempts cfg - a" arbitrary: a lastError)
  case 0
  then have a: "a = retryAttempts cfg" by simp
  from 0 have "attempt_fails w a" by simp
  then obtain m where m: "attempt_result w (transport w a) = Inl m"
    by (auto simp: attempt_fails_def isl_def)
  have rest: "callAPI_loop w cfg url payload (a + 1) (Some m) =
      ([], Inr (getErrorMetadata w (''Azure OpenAI API failed: '' @ m)))"
    using a by (intro loop_past_end) simp
  have msg: "failure_message w (retryAttempts cfg) = m"
    using m a by (simp add: failure_message_def)
  have "callAPI_loop w cfg url payload a lastError =
     (attempt_events cfg url payload a @ fst (callAPI_loop w cfg url payload (a + 1) (Some m)),
      snd (callAPI_loop w cfg url payload (a + 1) (Some m)))"
    using a by (intro loop_step_fail [OF _ m]) simp
  also have "\<dots> = (concat (map (attempt_events cfg url payload) [a..<Suc (retryAttempts cfg)]),
      Inr (getErrorMetadata w
        (''Azure OpenAI API failed: '' @ failure_message w (retryAttempts cfg))))"
    unfolding rest msg using a by simp
  finally show ?case .
next
  case (Suc k)
  then have lt: "a < retryAttempts cfg" by simp
  from Suc.prems have "attempt_fails w a" by simp
  then obtain m where m: "attempt_result w (transport w a) = Inl m"
    by (auto simp: attempt_fails_def isl_def)
  have IH: "callAPI_loop w cfg url payload (a + 1) (Some m) =
     (concat (map (attempt_events cfg url payload) [a + 1..<Suc (retryAttempts cfg)]),
      Inr (getErrorMetadata w
        (''Azure OpenAI API failed: '' @ failure_message w (retryAttempts cfg))))"
    using Suc.hyps(2) Suc.prems lt by (intro Suc.hyps(1)) auto
  have upt: "[a..<Suc (retryAttempts cfg)] = a # [a + 1..<Suc (retryAttempts cfg)]"
    using lt by (simp add: upt_conv_Cons)
  have "callAPI_loop w cfg url payload a lastError =
     (attempt_events cfg url payload a @ fst (callAPI_loop w cfg url payload (a + 1) (Some m)),
      snd (callAPI_loop w cfg url payload (a + 1) (Some m)))"
    using lt by (intro loop_step_fail [OF _ m]) simp
  also have "\<dots> = (concat (map (attempt_events cfg url payload) [a..<Suc (retryAttempts cfg)]),
      Inr (getErrorMetadata w
        (''Azure OpenAI API failed: '' @ failure_message w (retryAttempts cfg))))"
    unfolding IH upt by simp
  finally show ?case .
qed

lemma fetches_of_attempts:
  "length (filter is_fetch (concat (map (attempt_events cfg url payload) is))) = length is"
  by (induction "is") (auto simp: attempt_events_def)




lemma callAPI_exhausted:
  assumes "\<not> config_incomplete cfg" and "1 \<le> retryAttempts cfg"
    and "\<forall>i. 1 \<le> i \<and> i \<le> retryAttempts cfg \<longrightarrow> attempt_fails w i"
  shows "callAPI w cfg ''openai'' imageUrl imageInfo prop override =
     (concat (map (attempt_events cfg (request_url cfg)
                     (buildAzureOpenAIPayload w cfg imageUrl imageInfo prop override))
                [1..<Suc (retryAttempts cfg)]),
      Inr (getErrorMetadata w
        (''Azure OpenAI API failed: '' @ failure_message w (retryAttempts cfg))))"
  using assms by (simp add: callAPI_def loop_all_fail del: upt_Suc)



lemma get_prop_nullish: "nullish v \<Longrightarrow> isl (get_prop v k)"
  by (cases v) auto




lemma structured_record_nullish:
  "nullish metadata \<Longrightarrow> isl (structured_record w metadata)"
  by (cases metadata) (auto simp: structured_record_def)



lemma parse_null_json:
  assumes "extract_content response = Inr (JStr content)" and "content \<noteq> []"
    and "json_parse w (trim (strip_fences content)) = Some metadata"
    and "nullish metadata"
  shows "parseAzureOpenAIResponse w response = plain_text_record w content"
  using assms(1-3) structured_record_nullish [OF assms(4), of w]
  by (auto simp: parseAzureOpenAIResponse_def isl_def)



lemma error_record_fields:
  "map_of (getErrorMetadata w m) p =
     (if getStoredCustomPrompts w = [] then
        (if p = ''description'' then Some (JStr (error_marker @ m))
         else map_of [(''error'', JStr m), (''provider'', JStr ''error''),
                      (''generated_at'', JStr (now w))] p)
      else if p \<in> property ` set (getStoredCustomPrompts w)
        then Some (JStr (error_marker @ m))
      else map_of [(''error'', JStr m), (''provider'', JStr ''error''),
                   (''generated_at'', JStr (now w))] p)"
  unfolding getErrorMetadata_def map_of_populate by simp












lemma azure_config_complete: "\<not> config_incomplete azure_config"
  by (simp add: config_incomplete_def baseUrl_def azure_config_def)

lemma placeholder_deployment_complete: "\<not> config_incomplete placeholder_deployment_config"
  by (simp add: config_incomplete_def baseUrl_def azure_config_def placeholder_deployment_config_def)

lemma constructor_config_incomplete: "config_incomplete constructor_config"
  by (simp add: config_incomplete_def baseUrl_def constructor_config_def)

lemma offline_fails: "transport w = offline \<Longrightarrow> attempt_fails w i"
  by (simp add: attempt_fails_def attempt_result_def offline_def)

lemma offline_message: "transport w = offline \<Longrightarrow> failure_message w i = ''Failed to fetch''"
  by (simp add: failure_message_def attempt_result_def offline_def)





lemma transport_first_visit: "transport first_visit = offline"
  by (simp add: first_visit_def)

lemma rules_first_visit_nonempty: "getStoredCustomPrompts first_visit \<noteq> []"
  by (simp add: getStoredCustomPrompts_def first_visit_def)

lemma properties_first_visit: "property ` set (getStoredCustomPrompts first_visit) = {''description''}"
  by (simp add: getStoredCustomPrompts_def first_visit_def)

lemma retryAttempts_azure: "retryAttempts azure_config = 3"
  by (simp add: azure_config_def)















lemma truthy_str_Some: "truthy_str s \<Longrightarrow> s = Some (str_of s)"
  by (cases s) auto












lemma callAPI_incomplete:
  "config_incomplete cfg \<Longrightarrow>
   callAPI w cfg provider imageUrl imageInfo prop override = ([], Inr (getDefaultMetadata w))"
  by (simp add: callAPI_def)

lemma callAPI_other_provider:
  "provider \<noteq> ''openai'' \<Longrightarrow>
   callAPI w cfg provider imageUrl imageInfo prop override = ([], Inr (getDefaultMetadata w))"
  by (simp add: callAPI_def)

lemma default_provider: "map_of (getDefaultMetadata w) ''provider'' = Some (JStr ''default'')"
  by (simp add: getDefaultMetadata_def)

lemma generateLlamaMetadata_default:
  "generateLlamaMetadata w cfg imageUrl imageInfo = ([], Inr (getDefaultMetadata w))"
  by (simp add: generateLlamaMetadata_def callAPI_other_provider)

lemma generateBothMetadata_eq:
  "generateBothMetadata w cfg imageUrl imageInfo =
     (fst (generateOpenAIMetadata w cfg imageUrl imageInfo None),
      both_results w (snd (generateOpenAIMetadata w cfg imageUrl imageInfo None))
        (Inr (getDefaultMetadata w)))"
  by (simp add: generateBothMetadata_def Let_def generateLlamaMetadata_default)

lemma error_field_set: "map_of (getErrorMetadata w m) ''error'' \<noteq> None"
  by (simp add: error_record_fields)

lemma placeholder_deployment_simps:
  "retryAttempts placeholder_deployment_config = 3"
  "deployment placeholder_deployment_config = Some ''your-deployment-name''"
  by (simp_all add: placeholder_deployment_config_def azure_config_def)

lemma no_attempts_simps:
  "retryAttempts no_attempts_config = 0" "\<not> config_incomplete no_attempts_config"
  by (simp_all add: no_attempts_config_def azure_config_def config_incomplete_def baseUrl_def)

lemma callAPI_no_attempts:
  assumes "\<not> config_incomplete cfg" and "retryAttempts cfg = 0"
  shows "callAPI w cfg ''openai'' imageUrl imageInfo prop override =
     ([], Inl (TypeError (''Cannot read properties of undefined (reading '' @ [CHR 0x27]
                          @ ''message'' @ [CHR 0x27] @ '')'')))"
  using assms by (simp add: callAPI_def) (subst callAPI_loop.simps, simp)

lemma no_attempts_rejects:
  "isl (snd (generateOpenAIMetadata w no_attempts_config imageUrl imageInfo None))"
  by (simp add: generateOpenAIMetadata_def callAPI_no_attempts no_attempts_simps)

lemma testConfiguration_incomplete:
  assumes "config_incomplete cfg"
  shows "testConfiguration w cfg =
     ([], JObj [(''openai'', JObj (getDefaultMetadata w)), (''llama'', JObj (getDefaultMetadata w))])"
  using assms
  by (simp add: testConfiguration_def testConfiguration_return_def generateBothMetadata_eq
        generateOpenAIMetadata_def callAPI_incomplete both_results_def settled_value_def Let_def)





section \<open>The claims\<close>

subsection \<open>C1: failures surface as error records\<close>




subsection \<open>C2: retry count and backoff\<close>



subsection \<open>C3: structured JSON content\<close>




subsection \<open>C4: content that is not JSON\<close>



subsection \<open>C5: prompt resolution\<close>




subsection \<open>C6: incomplete endpoint configuration\<close>

text \<open>
  C6 as stated does not hold: only the base URL is examined for a placeholder. With the
  deployment \<open>your-deployment-name\<close> and a real base URL the call goes to the network,
  three times.
\<close>

theorem C6_counterexample:
  "deployment placeholder_deployment_config = Some ''your-deployment-name''
   \<and> str_includes ''your-deployment-name'' ''your-''
   \<and> length (filter is_fetch (fst (callAPI first_visit placeholder_deployment_config ''openai''
         ''data:image/jpeg;base64,test'' testImageInfo None None))) = 3
   \<and> snd (callAPI first_visit placeholder_deployment_config ''openai''
         ''data:image/jpeg;base64,test'' testImageInfo None None) =
        Inr (getErrorMetadata first_visit ''Azure OpenAI API failed: Failed to fetch'')
   \<and> map_of (getErrorMetadata first_visit ''Azure OpenAI API failed: Failed to fetch'')
        ''provider'' = Some (JStr ''error'')"
proof -
  have fails: "\<forall>i. 1 \<le> i \<and> i \<le> retryAttempts placeholder_deployment_config
      \<longrightarrow> attempt_fails first_visit i"
    by (simp add: offline_fails [OF transport_first_visit])
  have call: "callAPI first_visit placeholder_deployment_config ''openai''
      ''data:image/jpeg;base64,test'' testImageInfo None None =
     (concat (map (attempt_events placeholder_deployment_config
                     (request_url placeholder_deployment_config)
                     (buildAzureOpenAIPayload first_visit placeholder_deployment_config
                        ''data:image/jpeg;base64,test'' testImageInfo None None))
                [1..<Suc (retryAttempts placeholder_deployment_config)]),
      Inr (getErrorMetadata first_visit
        (''Azure OpenAI API failed: ''
           @ failure_message first_visit (retryAttempts placeholder_deployment_config))))"
    by (rule callAPI_exhausted [OF placeholder_deployment_complete _ fails])
       (simp add: placeholder_deployment_simps)
  show ?thesis
    unfolding call fst_conv snd_conv fetches_of_attempts
    by (simp add: placeholder_deployment_simps offline_message [OF transport_first_visit]
          error_record_fields properties_first_visit rules_first_visit_nonempty)
qed

text \<open>
  C6 (amended). For every configuration in which the base URL, the deployment or the API
  version is missing or empty, or the base URL contains \<open>your-\<close>, a call to the primary
  provider returns the default record (provider \<open>default\<close>) with an empty trace: no
  request is sent and nothing is retried.
\<close>

theorem C6_incomplete_configuration:
  assumes "\<not> truthy_str (baseUrl cfg) \<or> \<not> truthy_str (deployment cfg)
           \<or> \<not> truthy_str (apiVersion cfg) \<or> str_includes (str_of (baseUrl cfg)) ''your-''"
  shows "callAPI w cfg ''openai'' imageUrl imageInfo prop override = ([], Inr (getDefaultMetadata w))
       \<and> map_of (getDefaultMetadata w) ''provider'' = Some (JStr ''default'')
       \<and> filter is_fetch (fst (callAPI w cfg ''openai'' imageUrl imageInfo prop override)) = []
       \<and> waits (fst (callAPI w cfg ''openai'' imageUrl imageInfo prop override)) = []"
proof -
  have "config_incomplete cfg"
    using assms by (simp add: config_incomplete_def)
  then show ?thesis
    by (simp add: callAPI_incomplete default_provider)
qed

text \<open>
  The configuration of the constructor has a placeholder URL and no deployment.
\<close>

theorem C6_witness:
  "deployment constructor_config = None
   \<and> callAPI first_visit constructor_config ''openai'' ''data:image/jpeg;base64,test''
        testImageInfo None None = ([], Inr (getDefaultMetadata first_visit))
   \<and> map_of (getDefaultMetadata first_visit) ''provider'' = Some (JStr ''default'')"
  using C6_incomplete_configuration [of constructor_config first_visit
      "''data:image/jpeg;base64,test''" testImageInfo None None]
  by (simp add: constructor_config_def)

subsection \<open>C7: independent failure of the two calls\<close>

text \<open>
  C7. When exactly one of the two calls of \<open>generateBothMetadata\<close> is rejected, the
  result still has both members: the rejected one is \<open>getErrorMetadata\<close>'s record, which
  carries an \<open>error\<close> field, and the fulfilled one is the value of its call, unchanged.
  The secondary call always fulfils with the default record; a record returned by the
  primary call, an error record included, is passed on as it is.
\<close>

theorem C7_independent_failure:
  "(isl openaiResult \<and> llamaResult = Inr v \<longrightarrow>
      both_results w openaiResult llamaResult =
        [(''openai'', JObj (getErrorMetadata w ''OpenAI API failed'')), (''llama'', JObj v)])
   \<and> (openaiResult = Inr v \<and> isl llamaResult \<longrightarrow>
      both_results w openaiResult llamaResult =
        [(''openai'', JObj v), (''llama'', JObj (getErrorMetadata w ''Llama API failed''))])
   \<and> map_of (getErrorMetadata w m) ''error'' \<noteq> None
   \<and> snd (generateBothMetadata w cfg imageUrl imageInfo) =
        both_results w (snd (generateOpenAIMetadata w cfg imageUrl imageInfo None))
          (Inr (getDefaultMetadata w))
   \<and> (isl (snd (generateOpenAIMetadata w cfg imageUrl imageInfo None)) \<longrightarrow>
        snd (generateBothMetadata w cfg imageUrl imageInfo) =
          [(''openai'', JObj (getErrorMetadata w ''OpenAI API failed'')),
           (''llama'', JObj (getDefaultMetadata w))])
   \<and> (snd (generateOpenAIMetadata w cfg imageUrl imageInfo None) = Inr r \<longrightarrow>
        snd (generateBothMetadata w cfg imageUrl imageInfo) =
          [(''openai'', JObj r), (''llama'', JObj (getDefaultMetadata w))])"
  by (auto simp: both_results_def settled_value_def generateBothMetadata_eq error_field_set
        isl_def)

text \<open>
  With no attempt allowed the primary call is rejected; without network it returns an
  error record. Either way the secondary member is the default record.
\<close>

theorem C7_witness:
  "isl (snd (generateOpenAIMetadata first_visit no_attempts_config
         ''data:image/jpeg;base64,test'' testImageInfo None))
   \<and> snd (generateBothMetadata first_visit no_attempts_config
         ''data:image/jpeg;base64,test'' testImageInfo) =
        [(''openai'', JObj (getErrorMetadata first_visit ''OpenAI API failed'')),
         (''llama'', JObj (getDefaultMetadata first_visit))]
   \<and> both_results first_visit (Inr (getDefaultMetadata first_visit)) (Inl (Error ''timeout'')) =
        [(''openai'', JObj (getDefaultMetadata first_visit)),
         (''llama'', JObj (getErrorMetadata first_visit ''Llama API failed''))]
   \<and> snd (generateOpenAIMetadata first_visit azure_config
         ''data:image/jpeg;base64,test'' testImageInfo None) =
        Inr (getErrorMetadata first_visit ''Azure OpenAI API failed: Failed to fetch'')
   \<and> snd (generateBothMetadata first_visit azure_config
         ''data:image/jpeg;base64,test'' testImageInfo) =
        [(''openai'', JObj (getErrorMetadata first_visit ''Azure OpenAI API failed: Failed to fetch'')),
         (''llama'', JObj (getDefaultMetadata first_visit))]"
proof -
  have rej: "isl (snd (generateOpenAIMetadata first_visit no_attempts_config
         ''data:image/jpeg;base64,test'' testImageInfo None))"
    by (rule no_attempts_rejects)
  have fails: "\<forall>i. 1 \<le> i \<and> i \<le> retryAttempts azure_config \<longrightarrow> attempt_fails first_visit i"
    by (simp add: offline_fails [OF transport_first_visit])
  have "snd (callAPI first_visit azure_config ''openai'' ''data:image/jpeg;base64,test''
      testImageInfo None None) =
      Inr (getErrorMetadata first_visit
        (''Azure OpenAI API failed: '' @ failure_message first_visit (retryAttempts azure_config)))"
    by (subst callAPI_exhausted [OF azure_config_complete _ fails])
       (simp_all add: retryAttempts_azure)
  then have ret: "snd (generateOpenAIMetadata first_visit azure_config
         ''data:image/jpeg;base64,test'' testImageInfo None) =
        Inr (getErrorMetadata first_visit ''Azure OpenAI API failed: Failed to fetch'')"
    by (simp add: generateOpenAIMetadata_def offline_message [OF transport_first_visit])
  note no_attempts = C7_independent_failure [of "Inr (getDefaultMetadata first_visit)"
        "Inl (Error ''timeout'')" "getDefaultMetadata first_visit" first_visit "[]"
        no_attempts_config "''data:image/jpeg;base64,test''" testImageInfo "[]"]
  note no_network = C7_independent_failure [of "Inr (getDefaultMetadata first_visit)"
        "Inl (Error ''timeout'')" "getDefaultMetadata first_visit" first_visit "[]"
        azure_config "''data:image/jpeg;base64,test''" testImageInfo
        "getErrorMetadata first_visit ''Azure OpenAI API failed: Failed to fetch''"]
  have a: "snd (generateBothMetadata first_visit no_attempts_config
         ''data:image/jpeg;base64,test'' testImageInfo) =
        [(''openai'', JObj (getErrorMetadata first_visit ''OpenAI API failed'')),
         (''llama'', JObj (getDefaultMetadata first_visit))]"
    using no_attempts rej by blast
  have b: "both_results first_visit (Inr (getDefaultMetadata first_visit)) (Inl (Error ''timeout'')) =
        [(''openai'', JObj (getDefaultMetadata first_visit)),
         (''llama'', JObj (getErrorMetadata first_visit ''Llama API failed''))]"
    using no_attempts by simp
  have c: "snd (generateBothMetadata first_visit azure_config
         ''data:image/jpeg;base64,test'' testImageInfo) =
        [(''openai'', JObj (getErrorMetadata first_visit ''Azure OpenAI API failed: Failed to fetch'')),
         (''llama'', JObj (getDefaultMetadata first_visit))]"
    using no_network ret by blast
  from rej a b ret c show ?thesis by blast
qed

subsection \<open>C8: testConfiguration\<close>

text \<open>
  C8 as stated does not hold: \<open>testConfiguration\<close> returns what \<open>generateBothMetadata\<close>
  returns, the object with the members \<open>openai\<close> and \<open>llama\<close>. This object is not a
  metadata record and has no \<open>provider\<close> property.
\<close>

theorem C8_counterexample:
  "deployment constructor_config = None
   \<and> opt_prop (snd (testConfiguration first_visit constructor_config)) ''provider'' = JUndefined
   \<and> snd (testConfiguration first_visit constructor_config) \<noteq> JObj (getDefaultMetadata first_visit)"
  unfolding testConfiguration_incomplete [OF constructor_config_incomplete]
  by (simp add: constructor_config_def getDefaultMetadata_def)

text \<open>
  C8 (amended). With an incomplete configuration \<open>testConfiguration\<close>, run on the
  800 by 600 test descriptor, sends no request and returns the object whose members
  \<open>openai\<close> and \<open>llama\<close> are both the default record with provider \<open>default\<close>; when the
  awaited call throws, it returns \<open>null\<close>.
\<close>

theorem C8_test_configuration:
  assumes "\<not> truthy_str (baseUrl cfg) \<or> \<not> truthy_str (deployment cfg)
           \<or> \<not> truthy_str (apiVersion cfg) \<or> str_includes (str_of (baseUrl cfg)) ''your-''"
  shows "testConfiguration w cfg =
           ([], JObj [(''openai'', JObj (getDefaultMetadata w)),
                      (''llama'', JObj (getDefaultMetadata w))])
       \<and> map_of (getDefaultMetadata w) ''provider'' = Some (JStr ''default'')
       \<and> testConfiguration_return (Inl e) = JNull"
proof -
  have "config_incomplete cfg"
    using assms by (simp add: config_incomplete_def)
  then show ?thesis
    by (simp add: testConfiguration_incomplete default_provider testConfiguration_return_def)
qed

text \<open>
  The configuration of the constructor, which lacks the deployment.
\<close>

theorem C8_witness:
  "deployment constructor_config = None
   \<and> testConfiguration first_visit constructor_config =
        ([], JObj [(''openai'', JObj (getDefaultMetadata first_visit)),
                   (''llama'', JObj (getDefaultMetadata first_visit))])
   \<and> map_of (getDefaultMetadata first_visit) ''provider'' = Some (JStr ''default'')
   \<and> testConfiguration_return (Inl (TypeError ''unexpected'')) = JNull"
  using C8_test_configuration [of constructor_config first_visit "TypeError ''unexpected''"]
  by (simp add: constructor_config_def)

subsection \<open>C9: request body\<close>



subsection \<open>C10: the secondary provider is never contacted\<close>

text \<open>
  C10. A call routed to any provider other than \<open>openai\<close> sends no request and returns
  the default record, provider \<open>default\<close>; so does every \<open>generateLlamaMetadata\<close> call, and
  so the \<open>llama\<close> member of every combined call is the default record.
\<close>

theorem C10_secondary_provider_default:
  "(provider \<noteq> ''openai'' \<longrightarrow>
      callAPI w cfg provider imageUrl imageInfo prop override = ([], Inr (getDefaultMetadata w)))
   \<and> generateLlamaMetadata w cfg imageUrl imageInfo = ([], Inr (getDefaultMetadata w))
   \<and> map_of (snd (generateBothMetadata w cfg imageUrl imageInfo)) ''llama'' =
        Some (JObj (getDefaultMetadata w))
   \<and> fst (generateBothMetadata w cfg imageUrl imageInfo) =
        fst (generateOpenAIMetadata w cfg imageUrl imageInfo None)
   \<and> map_of (getDefaultMetadata w) ''provider'' = Some (JStr ''default'')"
  by (simp add: callAPI_other_provider generateLlamaMetadata_default generateBothMetadata_eq
        both_results_def settled_value_def default_provider)

text \<open>
  A call routed to \<open>gemini\<close>.
\<close>

theorem C10_witness:
  "callAPI first_visit azure_config ''gemini'' ''data:image/jpeg;base64,test'' testImageInfo
     None None = ([], Inr (getDefaultMetadata first_visit))
   \<and> generateLlamaMetadata first_visit azure_config ''data:image/jpeg;base64,test'' testImageInfo =
        ([], Inr (getDefaultMetadata first_visit))
   \<and> map_of (getDefaultMetadata first_visit) ''provider'' = Some (JStr ''default'')"
  using C10_secondary_provider_default [of "''gemini''" first_visit azure_config
      "''data:image/jpeg;base64,test''" testImageInfo None None]
  by simp

end
